theory Spec2Isabelle
  imports Main
begin

section \<open>Data model\<close>

text \<open>
  The values that \<^verbatim>\<open>inventory_dynamic.py\<close> builds and hands to \<^verbatim>\<open>json.dumps\<close>:
  \<^verbatim>\<open>None\<close>, strings, lists and dictionaries. A Python dictionary keeps its keys in
  insertion order and \<^verbatim>\<open>json.dumps\<close> prints them in that order, so a dictionary is an
  association list.
\<close>

datatype json =
    JNull
  | JStr string
  | JList "json list"
  | JDict "(string \<times> json) list"

type_synonym dict = "(string \<times> json) list"

text \<open>The process environment read by \<^verbatim>\<open>os.getenv\<close>.\<close>

type_synonym environ = "string \<rightharpoonup> string"

text \<open>
  \<^verbatim>\<open>os.getenv(key)\<close> is \<^verbatim>\<open>None\<close> for an unset variable; \<^verbatim>\<open>os.getenv(key, default)\<close>
  is the default for an unset variable only (a variable set to the empty string keeps it).
\<close>

definition getenv :: "environ \<Rightarrow> string \<Rightarrow> json" where
  "getenv env key = (case env key of None \<Rightarrow> JNull | Some v \<Rightarrow> JStr v)"

definition getenv_default :: "environ \<Rightarrow> string \<Rightarrow> string \<Rightarrow> json" where
  "getenv_default env key dflt = (case env key of None \<Rightarrow> JStr dflt | Some v \<Rightarrow> JStr v)"

subsection \<open>Dictionary operations\<close>

text \<open>
  \<^verbatim>\<open>d[k] = v\<close>: an existing key keeps its position and takes the new value, a new key
  goes to the end.
\<close>

fun dict_set :: "dict \<Rightarrow> string \<Rightarrow> json \<Rightarrow> dict" where
  "dict_set [] k v = [(k, v)]"
| "dict_set ((k', v') # d) k v =
     (if k' = k then (k, v) # d else (k', v') # dict_set d k v)"

text \<open>\<^verbatim>\<open>d.update(other)\<close>: every item of \<^verbatim>\<open>other\<close>, in its order, is assigned into \<^verbatim>\<open>d\<close>.\<close>

definition dict_update :: "dict \<Rightarrow> dict \<Rightarrow> dict" where
  "dict_update d other = fold (\<lambda>(k, v) acc. dict_set acc k v) other d"

text \<open>\<^verbatim>\<open>d.get(k)\<close> on a value that may not be a dictionary, and a lookup along a path of keys.\<close>

fun dict_get :: "json \<Rightarrow> string \<Rightarrow> json option" where
  "dict_get (JDict d) k = map_of d k"
| "dict_get _ k = None"

fun lookup_path :: "json \<Rightarrow> string list \<Rightarrow> json option" where
  "lookup_path j [] = Some j"
| "lookup_path j (k # ks) =
     (case dict_get j k of None \<Rightarrow> None | Some j' \<Rightarrow> lookup_path j' ks)"

section \<open>The inventory builder\<close>

text \<open>
  \<^verbatim>\<open>
  def get_aws_inventory() -> Dict[str, Any]:
      return {}
  def get_do_inventory() -> Dict[str, Any]:
      return {}
  \<close>
\<close>

definition get_aws_inventory :: dict where
  "get_aws_inventory = []"

definition get_do_inventory :: dict where
  "get_do_inventory = []"

text \<open>The base structure, \<^verbatim>\<open>{"_meta": {"hostvars": {}}}\<close>.\<close>

definition base_inventory :: dict where
  "base_inventory = [(''_meta'', JDict [(''hostvars'', JDict [])])]"

text \<open>The dictionary literal of the \<^verbatim>\<open>else\<close> branch of \<^verbatim>\<open>get_inventory\<close>.\<close>

definition static_inventory :: "environ \<Rightarrow> dict" where
  "static_inventory env =
     [(''servers'', JDict
         [(''hosts'', JList [JStr ''dev-server'']),
          (''vars'', JDict
             [(''ansible_user'', getenv_default env ''ANSIBLE_USER'' ''ansible''),
              (''ansible_become_password'', getenv env ''ANSIBLE_PASSWORD'')])]),
      (''_meta'', JDict
         [(''hostvars'', JDict
             [(''dev-server'', JDict
                 [(''ansible_host'', JStr ''192.168.88.2''),
                  (''ansible_password'', getenv env ''ANSIBLE_PASSWORD'')])])])]"

text \<open>
  \<^verbatim>\<open>
  def get_inventory():
      inventory = {"_meta": {"hostvars": {}}}
      if os.getenv('ANSIBLE_INVENTORY_SOURCE') == 'aws':
          inventory.update(get_aws_inventory())
      elif os.getenv('ANSIBLE_INVENTORY_SOURCE') == 'digitalocean':
          inventory.update(get_do_inventory())
      else:
          inventory.update({ "servers": ..., "_meta": ... })
      return inventory
  \<close>
\<close>

definition get_inventory :: "environ \<Rightarrow> dict" where
  "get_inventory env =
     (if getenv env ''ANSIBLE_INVENTORY_SOURCE'' = JStr ''aws''
      then dict_update base_inventory get_aws_inventory
      else if getenv env ''ANSIBLE_INVENTORY_SOURCE'' = JStr ''digitalocean''
      then dict_update base_inventory get_do_inventory
      else dict_update base_inventory (static_inventory env))"

text \<open>
  The same builder with its dispatch made observable. The two cloud adapters are module-level
  functions looked up when their branch runs, so their results are arguments here; and each
  branch records which source it merged: the call of \<^verbatim>\<open>get_aws_inventory\<close>, the call of
  \<^verbatim>\<open>get_do_inventory\<close>, or the static literal.
\<close>

datatype adapter = Aws | DigitalOcean | Static

definition get_inventory_traced :: "dict \<Rightarrow> dict \<Rightarrow> environ \<Rightarrow> adapter list \<times> dict" where
  "get_inventory_traced aws_result do_result env =
     (if getenv env ''ANSIBLE_INVENTORY_SOURCE'' = JStr ''aws''
      then ([Aws], dict_update base_inventory aws_result)
      else if getenv env ''ANSIBLE_INVENTORY_SOURCE'' = JStr ''digitalocean''
      then ([DigitalOcean], dict_update base_inventory do_result)
      else ([Static], dict_update base_inventory (static_inventory env)))"

section \<open>The command line\<close>

text \<open>
  What one run writes to standard output, one item for each \<^verbatim>\<open>print\<close>, and its exit
  code. \<^verbatim>\<open>json.dumps\<close> is a library function: a printed dump is recorded with the value
  dumped and the \<^verbatim>\<open>indent\<close> argument.
\<close>

datatype printed = JsonDumps json "nat option" | Text string

record outcome =
  stdout :: "printed list"
  exit_code :: int

datatype error = IndexError

text \<open>\<^verbatim>\<open>"Usage: {} --list or {} --host <hostname>".format(prog, prog)\<close>\<close>

definition usage :: "string \<Rightarrow> string" where
  "usage prog = ''Usage: '' @ prog @ '' --list or '' @ prog @ '' --host <hostname>''"

text \<open>
  \<^verbatim>\<open>
  if len(sys.argv) == 2 and sys.argv[1] == '--list':
      print(json.dumps(get_inventory(), indent=2))
  elif len(sys.argv) == 3 and sys.argv[1] == '--host':
      print(json.dumps({}))
  else:
      print("Usage: ...".format(sys.argv[0], sys.argv[0]))
      sys.exit(1)
  \<close>
  The interpreter starts a script with its path as \<^verbatim>\<open>sys.argv[0]\<close>; on an empty
  \<^verbatim>\<open>sys.argv\<close> the last branch raises at \<^verbatim>\<open>sys.argv[0]\<close> before anything is printed.
\<close>

definition main :: "environ \<Rightarrow> string list \<Rightarrow> error + outcome" where
  "main env argv =
     (if length argv = 2 \<and> argv ! 1 = ''--list''
      then Inr \<lparr>stdout = [JsonDumps (JDict (get_inventory env)) (Some 2)], exit_code = 0\<rparr>
      else if length argv = 3 \<and> argv ! 1 = ''--host''
      then Inr \<lparr>stdout = [JsonDumps (JDict []) None], exit_code = 0\<rparr>
      else (case argv of
              [] \<Rightarrow> Inl IndexError
            | prog # _ \<Rightarrow> Inr \<lparr>stdout = [Text (usage prog)], exit_code = 1\<rparr>))"

section \<open>Observations on documents and outcomes\<close>

text \<open>A run printed exactly one JSON dump.\<close>

definition prints_json :: "outcome \<Rightarrow> bool" where
  "prints_json r = (case stdout r of [JsonDumps _ _] \<Rightarrow> True | _ \<Rightarrow> False)"

text \<open>
  The output schema: every top-level key other than \<^verbatim>\<open>_meta\<close> is a group with a list of
  host names under \<^verbatim>\<open>hosts\<close> and a mapping under \<^verbatim>\<open>vars\<close>; \<^verbatim>\<open>_meta\<close> holds a mapping
  \<^verbatim>\<open>hostvars\<close> from host names to mappings.
\<close>

definition is_str :: "json \<Rightarrow> bool" where
  "is_str j = (case j of JStr _ \<Rightarrow> True | _ \<Rightarrow> False)"

definition is_dict :: "json \<Rightarrow> bool" where
  "is_dict j = (case j of JDict _ \<Rightarrow> True | _ \<Rightarrow> False)"

definition wf_group :: "json \<Rightarrow> bool" where
  "wf_group g =
     ((case dict_get g ''hosts'' of Some (JList hs) \<Rightarrow> list_all is_str hs | _ \<Rightarrow> False) \<and>
      (case dict_get g ''vars'' of Some v \<Rightarrow> is_dict v | None \<Rightarrow> False))"

definition wf_meta :: "json \<Rightarrow> bool" where
  "wf_meta m =
     (case dict_get m ''hostvars'' of
        Some (JDict hv) \<Rightarrow> distinct (map fst hv) \<and> list_all (\<lambda>(h, vars). is_dict vars) hv
      | _ \<Rightarrow> False)"

definition well_formed :: "dict \<Rightarrow> bool" where
  "well_formed doc =
     (distinct (map fst doc) \<and>
      (case map_of doc ''_meta'' of Some m \<Rightarrow> wf_meta m | None \<Rightarrow> False) \<and>
      list_all (\<lambda>(k, g). k = ''_meta'' \<or> wf_group g) doc)"

text \<open>The groups of a document, the host names they list, and the hosts that have variables.\<close>

definition groups :: "dict \<Rightarrow> dict" where
  "groups doc = filter (\<lambda>(k, g). k \<noteq> ''_meta'') doc"

definition group_hosts :: "json \<Rightarrow> string list" where
  "group_hosts g =
     (case dict_get g ''hosts'' of
        Some (JList hs) \<Rightarrow> List.map_filter (\<lambda>j. case j of JStr h \<Rightarrow> Some h | _ \<Rightarrow> None) hs
      | _ \<Rightarrow> [])"

definition all_hosts :: "dict \<Rightarrow> string list" where
  "all_hosts doc = concat (map (\<lambda>(k, g). group_hosts g) (groups doc))"

definition hostvars_hosts :: "dict \<Rightarrow> string list" where
  "hostvars_hosts doc =
     (case lookup_path (JDict doc) [''_meta'', ''hostvars''] of
        Some (JDict hv) \<Rightarrow> map fst hv
      | _ \<Rightarrow> [])"

section \<open>Properties of the dictionary operations\<close>

lemma map_of_dict_set: "map_of (dict_set d k v) = (map_of d)(k \<mapsto> v)"
  by (induction d) (auto simp: fun_eq_iff)

lemma map_of_dict_update: "map_of (dict_update d other) = map_of d ++ map_of (rev other)"
  unfolding dict_update_def
proof (induction other arbitrary: d)
  case Nil
  show ?case by simp
next
  case (Cons p ps)
  obtain k v where p: "p = (k, v)" by (cases p)
  show ?case
    by (simp add: p Cons.IH map_of_dict_set fun_eq_iff map_add_def split: option.splits)
qed

lemma merged_static:
  "dict_update base_inventory (static_inventory env) =
     [(''_meta'', JDict
         [(''hostvars'', JDict
             [(''dev-server'', JDict
                 [(''ansible_host'', JStr ''192.168.88.2''),
                  (''ansible_password'', getenv env ''ANSIBLE_PASSWORD'')])])]),
      (''servers'', JDict
         [(''hosts'', JList [JStr ''dev-server'']),
          (''vars'', JDict
             [(''ansible_user'', getenv_default env ''ANSIBLE_USER'' ''ansible''),
              (''ansible_become_password'', getenv env ''ANSIBLE_PASSWORD'')])])]"
  by (simp add: dict_update_def base_inventory_def static_inventory_def)

lemma merged_empty: "dict_update d [] = d"
  by (simp add: dict_update_def)


lemma map_of_rev_distinct: "distinct (map fst xs) \<Longrightarrow> map_of (rev xs) = map_of xs"
proof (induction xs)
  case Nil
  show ?case by simp
next
  case (Cons p ps)
  obtain k v where p: "p = (k, v)" by (cases p)
  from Cons.prems have fresh: "k \<notin> fst ` set ps" and dist: "distinct (map fst ps)"
    by (simp_all add: p)
  from fresh have none: "map_of ps k = None"
    by (simp add: map_of_eq_None_iff)
  show ?case
    using none by (auto simp: p Cons.IH [OF dist] fun_eq_iff map_add_def split: option.splits)
qed

section \<open>The three branches of the builder\<close>

lemma getenv_eq_JStr: "getenv env k = JStr s \<longleftrightarrow> env k = Some s"
  by (simp add: getenv_def split: option.splits)

lemma get_inventory_aws:
  "env ''ANSIBLE_INVENTORY_SOURCE'' = Some ''aws'' \<Longrightarrow> get_inventory env = base_inventory"
  by (simp add: get_inventory_def getenv_eq_JStr get_aws_inventory_def merged_empty)

lemma get_inventory_do:
  "env ''ANSIBLE_INVENTORY_SOURCE'' = Some ''digitalocean'' \<Longrightarrow>
   get_inventory env = base_inventory"
  by (simp add: get_inventory_def getenv_eq_JStr get_do_inventory_def merged_empty)

lemma get_inventory_static:
  "env ''ANSIBLE_INVENTORY_SOURCE'' \<noteq> Some ''aws'' \<Longrightarrow>
   env ''ANSIBLE_INVENTORY_SOURCE'' \<noteq> Some ''digitalocean'' \<Longrightarrow>
   get_inventory env = dict_update base_inventory (static_inventory env)"
  by (simp add: get_inventory_def getenv_eq_JStr)

lemma get_inventory_cases:
  "get_inventory env = base_inventory \<or>
   get_inventory env = dict_update base_inventory (static_inventory env)"
  using get_inventory_aws get_inventory_do get_inventory_static by blast

lemma main_list:
  "main env [prog, ''--list''] =
     Inr \<lparr>stdout = [JsonDumps (JDict (get_inventory env)) (Some 2)], exit_code = 0\<rparr>"
  by (simp add: main_def)

lemma well_formed_static: "well_formed (dict_update base_inventory (static_inventory env))"
  by (simp add: merged_static well_formed_def wf_meta_def wf_group_def is_dict_def is_str_def)

lemma hosts_base: "all_hosts base_inventory = []" "hostvars_hosts base_inventory = []"
  by (simp_all add: all_hosts_def hostvars_hosts_def groups_def base_inventory_def)

lemma hosts_static:
  "all_hosts (dict_update base_inventory (static_inventory env)) = [''dev-server'']"
  "hostvars_hosts (dict_update base_inventory (static_inventory env)) = [''dev-server'']"
  by (simp_all add: merged_static all_hosts_def hostvars_hosts_def groups_def group_hosts_def
        List.map_filter_def)

section \<open>Dispatch on the source selector\<close>

lemma merged_partial:
  assumes "distinct (map fst partial)"
  shows "map_of (dict_update base_inventory partial) k =
           (case map_of partial k of
              Some v \<Rightarrow> Some v
            | None \<Rightarrow> if k = ''_meta'' then Some (JDict [(''hostvars'', JDict [])]) else None)"
proof -
  have "map_of (rev partial) = map_of partial"
    using assms by (rule map_of_rev_distinct)
  then show ?thesis
    by (simp add: map_of_dict_update map_add_def base_inventory_def split: option.splits)
qed

text \<open>
  C1. \<^verbatim>\<open>get_inventory\<close> dispatches on \<^verbatim>\<open>ANSIBLE_INVENTORY_SOURCE\<close>. Exactly \<^verbatim>\<open>aws\<close> uses
  the AWS adapter and nothing else: every key of its result has the adapter's value, the only
  other key is \<^verbatim>\<open>_meta\<close> with empty \<^verbatim>\<open>hostvars\<close>, and with the adapter as shipped the document
  is \<^verbatim>\<open>{"_meta": {"hostvars": {}}}\<close>. Exactly \<^verbatim>\<open>digitalocean\<close> does the same with the
  DigitalOcean adapter. Every other value, the unset variable included, uses the static source
  and gives the fixed \<^verbatim>\<open>servers\<close>/\<^verbatim>\<open>dev-server\<close> document with \<^verbatim>\<open>ANSIBLE_USER\<close> and
  \<^verbatim>\<open>ANSIBLE_PASSWORD\<close> substituted, whatever the cloud adapters would return. Exactly one
  source is used in every run.
\<close>

theorem dispatch_on_source:
  "(env ''ANSIBLE_INVENTORY_SOURCE'' = Some ''aws'' \<longrightarrow>
      fst (get_inventory_traced a d env) = [Aws] \<and>
      (distinct (map fst a) \<longrightarrow>
         (\<forall>k. map_of (snd (get_inventory_traced a d env)) k =
            (case map_of a k of
               Some v \<Rightarrow> Some v
             | None \<Rightarrow> if k = ''_meta'' then Some (JDict [(''hostvars'', JDict [])]) else None))) \<and>
      get_inventory env = [(''_meta'', JDict [(''hostvars'', JDict [])])]) \<and>
   (env ''ANSIBLE_INVENTORY_SOURCE'' = Some ''digitalocean'' \<longrightarrow>
      fst (get_inventory_traced a d env) = [DigitalOcean] \<and>
      (distinct (map fst d) \<longrightarrow>
         (\<forall>k. map_of (snd (get_inventory_traced a d env)) k =
            (case map_of d k of
               Some v \<Rightarrow> Some v
             | None \<Rightarrow> if k = ''_meta'' then Some (JDict [(''hostvars'', JDict [])]) else None))) \<and>
      get_inventory env = [(''_meta'', JDict [(''hostvars'', JDict [])])]) \<and>
   (env ''ANSIBLE_INVENTORY_SOURCE'' \<noteq> Some ''aws'' \<and>
    env ''ANSIBLE_INVENTORY_SOURCE'' \<noteq> Some ''digitalocean'' \<longrightarrow>
      get_inventory_traced a d env = ([Static], get_inventory env) \<and>
      get_inventory env =
       [(''_meta'', JDict
           [(''hostvars'', JDict
               [(''dev-server'', JDict
                   [(''ansible_host'', JStr ''192.168.88.2''),
                    (''ansible_password'',
                       (case env ''ANSIBLE_PASSWORD'' of None \<Rightarrow> JNull | Some p \<Rightarrow> JStr p))])])]),
        (''servers'', JDict
           [(''hosts'', JList [JStr ''dev-server'']),
            (''vars'', JDict
               [(''ansible_user'',
                   (case env ''ANSIBLE_USER'' of None \<Rightarrow> JStr ''ansible'' | Some u \<Rightarrow> JStr u)),
                (''ansible_become_password'',
                   (case env ''ANSIBLE_PASSWORD'' of None \<Rightarrow> JNull | Some p \<Rightarrow> JStr p))])])]) \<and>
   get_inventory env = snd (get_inventory_traced get_aws_inventory get_do_inventory env) \<and>
   length (fst (get_inventory_traced a d env)) = 1"
proof -
  let ?src = "env ''ANSIBLE_INVENTORY_SOURCE''"
  have aws: "fst (get_inventory_traced a d env) = [Aws] \<and>
      (distinct (map fst a) \<longrightarrow>
         (\<forall>k. map_of (snd (get_inventory_traced a d env)) k =
            (case map_of a k of
               Some v \<Rightarrow> Some v
             | None \<Rightarrow> if k = ''_meta'' then Some (JDict [(''hostvars'', JDict [])]) else None))) \<and>
      get_inventory env = [(''_meta'', JDict [(''hostvars'', JDict [])])]"
    if sel: "?src = Some ''aws''"
  proof -
    have run: "get_inventory_traced a d env = ([Aws], dict_update base_inventory a)"
      using sel by (simp add: get_inventory_traced_def getenv_eq_JStr)
    have "get_inventory env = [(''_meta'', JDict [(''hostvars'', JDict [])])]"
      using get_inventory_aws [of env] sel by (simp add: base_inventory_def)
    then show ?thesis
      by (simp add: run merged_partial)
  qed
  have digo: "fst (get_inventory_traced a d env) = [DigitalOcean] \<and>
      (distinct (map fst d) \<longrightarrow>
         (\<forall>k. map_of (snd (get_inventory_traced a d env)) k =
            (case map_of d k of
               Some v \<Rightarrow> Some v
             | None \<Rightarrow> if k = ''_meta'' then Some (JDict [(''hostvars'', JDict [])]) else None))) \<and>
      get_inventory env = [(''_meta'', JDict [(''hostvars'', JDict [])])]"
    if sel: "?src = Some ''digitalocean''"
  proof -
    have run: "get_inventory_traced a d env = ([DigitalOcean], dict_update base_inventory d)"
      using sel by (simp add: get_inventory_traced_def getenv_eq_JStr)
    have "get_inventory env = [(''_meta'', JDict [(''hostvars'', JDict [])])]"
      using get_inventory_do [of env] sel by (simp add: base_inventory_def)
    then show ?thesis
      by (simp add: run merged_partial)
  qed
  have static: "get_inventory_traced a d env = ([Static], get_inventory env) \<and>
      get_inventory env =
       [(''_meta'', JDict
           [(''hostvars'', JDict
               [(''dev-server'', JDict
                   [(''ansible_host'', JStr ''192.168.88.2''),
                    (''ansible_password'',
                       (case env ''ANSIBLE_PASSWORD'' of None \<Rightarrow> JNull | Some p \<Rightarrow> JStr p))])])]),
        (''servers'', JDict
           [(''hosts'', JList [JStr ''dev-server'']),
            (''vars'', JDict
               [(''ansible_user'',
                   (case env ''ANSIBLE_USER'' of None \<Rightarrow> JStr ''ansible'' | Some u \<Rightarrow> JStr u)),
                (''ansible_become_password'',
                   (case env ''ANSIBLE_PASSWORD'' of None \<Rightarrow> JNull | Some p \<Rightarrow> JStr p))])])]"
    if sel: "?src \<noteq> Some ''aws'' \<and> ?src \<noteq> Some ''digitalocean''"
  proof -
    have doc: "get_inventory env = dict_update base_inventory (static_inventory env)"
      using sel by (simp add: get_inventory_static)
    have "get_inventory_traced a d env = ([Static], get_inventory env)"
      using sel by (simp add: doc get_inventory_traced_def getenv_eq_JStr)
    then show ?thesis
      by (simp add: doc merged_static getenv_def getenv_default_def)
  qed
  have link: "get_inventory env =
                snd (get_inventory_traced get_aws_inventory get_do_inventory env)"
    by (simp add: get_inventory_def get_inventory_traced_def)
  have one: "length (fst (get_inventory_traced a d env)) = 1"
    by (simp add: get_inventory_traced_def)
  from aws digo static link one show ?thesis
    by blast
qed

theorem dispatch_on_source_witness:
  "get_inventory_traced
     [(''web'', JDict [(''hosts'', JList [JStr ''i-1''])]),
      (''_meta'', JDict [(''hostvars'', JDict [(''i-1'', JDict [])])])]
     [(''db'', JDict [(''hosts'', JList [JStr ''d-1''])])]
     [''ANSIBLE_INVENTORY_SOURCE'' \<mapsto> ''aws''] =
     ([Aws],
      [(''_meta'', JDict [(''hostvars'', JDict [(''i-1'', JDict [])])]),
       (''web'', JDict [(''hosts'', JList [JStr ''i-1''])])]) \<and>
   get_inventory_traced
     [(''web'', JDict [(''hosts'', JList [JStr ''i-1''])]),
      (''_meta'', JDict [(''hostvars'', JDict [(''i-1'', JDict [])])])]
     [(''db'', JDict [(''hosts'', JList [JStr ''d-1''])])]
     [''ANSIBLE_INVENTORY_SOURCE'' \<mapsto> ''digitalocean''] =
     ([DigitalOcean],
      [(''_meta'', JDict [(''hostvars'', JDict [])]),
       (''db'', JDict [(''hosts'', JList [JStr ''d-1''])])]) \<and>
   get_inventory_traced
     [(''web'', JDict [(''hosts'', JList [JStr ''i-1''])]),
      (''_meta'', JDict [(''hostvars'', JDict [(''i-1'', JDict [])])])]
     [(''db'', JDict [(''hosts'', JList [JStr ''d-1''])])]
     [''ANSIBLE_INVENTORY_SOURCE'' \<mapsto> ''AWS'', ''ANSIBLE_USER'' \<mapsto> ''deploy''] =
     ([Static],
      [(''_meta'', JDict
          [(''hostvars'', JDict
              [(''dev-server'', JDict
                  [(''ansible_host'', JStr ''192.168.88.2''),
                   (''ansible_password'', JNull)])])]),
       (''servers'', JDict
          [(''hosts'', JList [JStr ''dev-server'']),
           (''vars'', JDict
              [(''ansible_user'', JStr ''deploy''),
               (''ansible_become_password'', JNull)])])]) \<and>
   get_inventory [''ANSIBLE_INVENTORY_SOURCE'' \<mapsto> ''aws'', ''ANSIBLE_USER'' \<mapsto> ''deploy''] =
     [(''_meta'', JDict [(''hostvars'', JDict [])])] \<and>
   get_inventory [''ANSIBLE_INVENTORY_SOURCE'' \<mapsto> ''digitalocean''] =
     [(''_meta'', JDict [(''hostvars'', JDict [])])] \<and>
   get_inventory Map.empty =
     [(''_meta'', JDict
         [(''hostvars'', JDict
             [(''dev-server'', JDict
                 [(''ansible_host'', JStr ''192.168.88.2''),
                  (''ansible_password'', JNull)])])]),
      (''servers'', JDict
         [(''hosts'', JList [JStr ''dev-server'']),
          (''vars'', JDict
             [(''ansible_user'', JStr ''ansible''),
              (''ansible_become_password'', JNull)])])]"
proof -
  let ?a = "[(''web'', JDict [(''hosts'', JList [JStr ''i-1''])]),
      (''_meta'', JDict [(''hostvars'', JDict [(''i-1'', JDict [])])])]"
  let ?d = "[(''db'', JDict [(''hosts'', JList [JStr ''d-1''])])]"
  note aws = dispatch_on_source [of "[''ANSIBLE_INVENTORY_SOURCE'' \<mapsto> ''aws'']" ?a ?d]
  note digo = dispatch_on_source [of "[''ANSIBLE_INVENTORY_SOURCE'' \<mapsto> ''digitalocean'']" ?a ?d]
  note other = dispatch_on_source
      [of "[''ANSIBLE_INVENTORY_SOURCE'' \<mapsto> ''AWS'', ''ANSIBLE_USER'' \<mapsto> ''deploy'']" ?a ?d]
  note aws' = dispatch_on_source
      [of "[''ANSIBLE_INVENTORY_SOURCE'' \<mapsto> ''aws'', ''ANSIBLE_USER'' \<mapsto> ''deploy'']" ?a ?d]
  note unset = dispatch_on_source [of Map.empty ?a ?d]
  have "get_inventory_traced ?a ?d [''ANSIBLE_INVENTORY_SOURCE'' \<mapsto> ''aws''] =
     ([Aws],
      [(''_meta'', JDict [(''hostvars'', JDict [(''i-1'', JDict [])])]),
       (''web'', JDict [(''hosts'', JList [JStr ''i-1''])])])"
    using aws
    by (simp add: get_inventory_traced_def getenv_def dict_update_def base_inventory_def)
  moreover have "get_inventory_traced ?a ?d [''ANSIBLE_INVENTORY_SOURCE'' \<mapsto> ''digitalocean''] =
     ([DigitalOcean],
      [(''_meta'', JDict [(''hostvars'', JDict [])]),
       (''db'', JDict [(''hosts'', JList [JStr ''d-1''])])])"
    using digo
    by (simp add: get_inventory_traced_def getenv_def dict_update_def base_inventory_def)
  moreover note other aws' digo unset
  ultimately show ?thesis
    by simp
qed

section \<open>The static document\<close>

text \<open>
  C2. On the default path (the selector is neither \<^verbatim>\<open>aws\<close> nor \<^verbatim>\<open>digitalocean\<close>)
  \<^verbatim>\<open>get_inventory\<close> returns exactly one group, \<^verbatim>\<open>servers\<close>, with the host list
  \<^verbatim>\<open>["dev-server"]\<close>, with \<^verbatim>\<open>ansible_user\<close> set to \<^verbatim>\<open>ANSIBLE_USER\<close> or else \<^verbatim>\<open>ansible\<close> and
  \<^verbatim>\<open>ansible_become_password\<close> set to \<^verbatim>\<open>ANSIBLE_PASSWORD\<close>; \<^verbatim>\<open>_meta.hostvars\<close> has the one
  entry \<^verbatim>\<open>dev-server\<close>, with \<^verbatim>\<open>ansible_host\<close> the address 192.168.88.2 and
  \<^verbatim>\<open>ansible_password\<close> set to \<^verbatim>\<open>ANSIBLE_PASSWORD\<close>.
\<close>

theorem static_document:
  assumes "env ''ANSIBLE_INVENTORY_SOURCE'' \<noteq> Some ''aws''"
    and "env ''ANSIBLE_INVENTORY_SOURCE'' \<noteq> Some ''digitalocean''"
  shows "get_inventory env =
     [(''_meta'', JDict
         [(''hostvars'', JDict
             [(''dev-server'', JDict
                 [(''ansible_host'', JStr ''192.168.88.2''),
                  (''ansible_password'',
                     (case env ''ANSIBLE_PASSWORD'' of None \<Rightarrow> JNull | Some p \<Rightarrow> JStr p))])])]),
      (''servers'', JDict
         [(''hosts'', JList [JStr ''dev-server'']),
          (''vars'', JDict
             [(''ansible_user'',
                 (case env ''ANSIBLE_USER'' of None \<Rightarrow> JStr ''ansible'' | Some u \<Rightarrow> JStr u)),
              (''ansible_become_password'',
                 (case env ''ANSIBLE_PASSWORD'' of None \<Rightarrow> JNull | Some p \<Rightarrow> JStr p))])])] \<and>
    map fst (groups (get_inventory env)) = [''servers''] \<and>
    hostvars_hosts (get_inventory env) = [''dev-server'']"
proof -
  have doc: "get_inventory env = dict_update base_inventory (static_inventory env)"
    using assms by (rule get_inventory_static)
  have "map fst (groups (get_inventory env)) = [''servers'']"
    by (simp add: doc merged_static groups_def)
  moreover have "hostvars_hosts (get_inventory env) = [''dev-server'']"
    by (simp add: doc hosts_static)
  ultimately show ?thesis
    by (simp add: doc merged_static getenv_def getenv_default_def)
qed

theorem static_document_witness:
  "get_inventory [''ANSIBLE_USER'' \<mapsto> ''deploy'', ''ANSIBLE_PASSWORD'' \<mapsto> ''s3cret''] =
     [(''_meta'', JDict
         [(''hostvars'', JDict
             [(''dev-server'', JDict
                 [(''ansible_host'', JStr ''192.168.88.2''),
                  (''ansible_password'', JStr ''s3cret'')])])]),
      (''servers'', JDict
         [(''hosts'', JList [JStr ''dev-server'']),
          (''vars'', JDict
             [(''ansible_user'', JStr ''deploy''),
              (''ansible_become_password'', JStr ''s3cret'')])])] \<and>
   map fst (groups (get_inventory [''ANSIBLE_INVENTORY_SOURCE'' \<mapsto> ''gcp''])) = [''servers'']"
proof -
  have a: "[''ANSIBLE_USER'' \<mapsto> ''deploy'', ''ANSIBLE_PASSWORD'' \<mapsto> ''s3cret'']
             ''ANSIBLE_INVENTORY_SOURCE'' \<noteq> Some ''aws''"
    and b: "[''ANSIBLE_USER'' \<mapsto> ''deploy'', ''ANSIBLE_PASSWORD'' \<mapsto> ''s3cret'']
             ''ANSIBLE_INVENTORY_SOURCE'' \<noteq> Some ''digitalocean''"
    and c: "[''ANSIBLE_INVENTORY_SOURCE'' \<mapsto> ''gcp''] ''ANSIBLE_INVENTORY_SOURCE'' \<noteq> Some ''aws''"
    and d: "[''ANSIBLE_INVENTORY_SOURCE'' \<mapsto> ''gcp''] ''ANSIBLE_INVENTORY_SOURCE''
              \<noteq> Some ''digitalocean''"
    by simp_all
  show ?thesis
    using static_document
            [of "[''ANSIBLE_USER'' \<mapsto> ''deploy'', ''ANSIBLE_PASSWORD'' \<mapsto> ''s3cret'']", OF a b]
          static_document [of "[''ANSIBLE_INVENTORY_SOURCE'' \<mapsto> ''gcp'']", OF c d]
    by (simp add: groups_def)
qed

section \<open>Invocation modes\<close>

text \<open>
  C3, as the code has it. Invoked with exactly the two arguments \<^verbatim>\<open>--host\<close> and a host name,
  the program prints the empty mapping as JSON and exits with code 0, whatever the host name
  and the environment.
\<close>

theorem host_mode_prints_empty_mapping:
  "main env [prog, ''--host'', h] =
     Inr \<lparr>stdout = [JsonDumps (JDict []) None], exit_code = 0\<rparr>"
  by (simp add: main_def)

text \<open>
  Under the default source with nothing set, \<^verbatim>\<open>--list\<close> has variables for \<^verbatim>\<open>dev-server\<close>
  under \<^verbatim>\<open>_meta.hostvars\<close>, and \<^verbatim>\<open>--host dev-server\<close> does not print them.
\<close>

theorem host_mode_counterexample:
  "lookup_path (JDict (get_inventory Map.empty)) [''_meta'', ''hostvars'', ''dev-server''] =
     Some (JDict [(''ansible_host'', JStr ''192.168.88.2''), (''ansible_password'', JNull)]) \<and>
   main Map.empty [''inventory_dynamic.py'', ''--host'', ''dev-server''] \<noteq>
     Inr \<lparr>stdout = [JsonDumps (JDict [(''ansible_host'', JStr ''192.168.88.2''),
                                     (''ansible_password'', JNull)]) None],
          exit_code = 0\<rparr>"
  by (simp add: main_def get_inventory_def merged_static getenv_def)

text \<open>
  C4. With the script path followed by the arguments \<^verbatim>\<open>args\<close>, the program always ends with an
  exit code; it prints one JSON dump and exits with code 0 exactly when \<^verbatim>\<open>args\<close> is
  \<^verbatim>\<open>--list\<close> alone or \<^verbatim>\<open>--host\<close> followed by one host name, and for every other shape it
  prints the usage message and exits with code 1.
\<close>

theorem invocation_shapes:
  "\<exists>r. main env (prog # args) = Inr r \<and>
     (if args = [''--list''] \<or> (\<exists>h. args = [''--host'', h])
      then prints_json r \<and> exit_code r = 0
      else r = \<lparr>stdout = [Text (usage prog)], exit_code = 1\<rparr>) \<and>
     (prints_json r \<and> exit_code r = 0 \<longleftrightarrow>
        args = [''--list''] \<or> (\<exists>h. args = [''--host'', h]))"
proof -
  have two: "length args = Suc 0 \<and> args ! 0 = ''--list'' \<longleftrightarrow> args = [''--list'']"
    by (cases args) auto
  have three: "length args = 2 \<and> args ! 0 = ''--host'' \<longleftrightarrow> (\<exists>h. args = [''--host'', h])"
    by (cases args; cases "tl args") auto
  show ?thesis
    using two three by (auto simp: main_def prints_json_def)
qed

theorem invocation_shapes_witness:
  "main Map.empty [''inv.py''] =
     Inr \<lparr>stdout = [Text ''Usage: inv.py --list or inv.py --host <hostname>''], exit_code = 1\<rparr> \<and>
   main Map.empty [''inv.py'', ''--list'', ''x''] =
     Inr \<lparr>stdout = [Text ''Usage: inv.py --list or inv.py --host <hostname>''], exit_code = 1\<rparr> \<and>
   main Map.empty [''inv.py'', ''--host'', ''a'', ''b''] =
     Inr \<lparr>stdout = [Text ''Usage: inv.py --list or inv.py --host <hostname>''], exit_code = 1\<rparr> \<and>
   main Map.empty [''inv.py'', ''--hosts'', ''a''] =
     Inr \<lparr>stdout = [Text ''Usage: inv.py --list or inv.py --host <hostname>''], exit_code = 1\<rparr>"
  using invocation_shapes [of Map.empty "''inv.py''" "[]"]
        invocation_shapes [of Map.empty "''inv.py''" "[''--list'', ''x'']"]
        invocation_shapes [of Map.empty "''inv.py''" "[''--host'', ''a'', ''b'']"]
        invocation_shapes [of Map.empty "''inv.py''" "[''--hosts'', ''a'']"]
  by (simp add: usage_def)

section \<open>Invariants of the document\<close>

text \<open>
  C5. For every environment the document returned by \<^verbatim>\<open>get_inventory\<close>, which is the one
  \<^verbatim>\<open>--list\<close> prints, has a key \<^verbatim>\<open>_meta\<close> whose value is a mapping with a key \<^verbatim>\<open>hostvars\<close>
  whose value is a mapping.
\<close>

theorem meta_hostvars_present:
  "\<exists>meta hv.
     map_of (get_inventory env) ''_meta'' = Some (JDict meta) \<and>
     map_of meta ''hostvars'' = Some (JDict hv) \<and>
     main env [prog, ''--list''] =
       Inr \<lparr>stdout = [JsonDumps (JDict (get_inventory env)) (Some 2)], exit_code = 0\<rparr>"
proof -
  consider "get_inventory env = base_inventory"
    | "get_inventory env = dict_update base_inventory (static_inventory env)"
    using get_inventory_cases by blast
  then have "\<exists>meta hv.
     map_of (get_inventory env) ''_meta'' = Some (JDict meta) \<and>
     map_of meta ''hostvars'' = Some (JDict hv)"
  proof cases
    case 1
    then show ?thesis by (simp add: base_inventory_def)
  next
    case 2
    then show ?thesis by (simp add: merged_static)
  qed
  then show ?thesis
    by (simp add: main_list)
qed

text \<open>
  C6. Both cloud adapters return the empty mapping. \<^verbatim>\<open>update\<close> merges by top-level key: a
  key of the partial result takes the partial result's value, every other key keeps the value
  it had. So with the selector \<^verbatim>\<open>aws\<close> or \<^verbatim>\<open>digitalocean\<close> the document is the base document
  \<^verbatim>\<open>{"_meta": {"hostvars": {}}}\<close>.
\<close>

theorem cloud_adapters_empty:
  "get_aws_inventory = [] \<and> get_do_inventory = [] \<and>
   (distinct (map fst partial) \<longrightarrow>
      map_of (dict_update doc partial) k =
        (case map_of partial k of Some v \<Rightarrow> Some v | None \<Rightarrow> map_of doc k)) \<and>
   (env ''ANSIBLE_INVENTORY_SOURCE'' = Some ''aws'' \<or>
    env ''ANSIBLE_INVENTORY_SOURCE'' = Some ''digitalocean'' \<longrightarrow>
      get_inventory env = [(''_meta'', JDict [(''hostvars'', JDict [])])])"
proof -
  have "map_of (dict_update doc partial) k =
          (case map_of partial k of Some v \<Rightarrow> Some v | None \<Rightarrow> map_of doc k)"
    if "distinct (map fst partial)"
    using map_of_rev_distinct [OF that]
    by (simp add: map_of_dict_update map_add_def)
  moreover have "get_inventory env = [(''_meta'', JDict [(''hostvars'', JDict [])])]"
    if "env ''ANSIBLE_INVENTORY_SOURCE'' = Some ''aws'' \<or>
        env ''ANSIBLE_INVENTORY_SOURCE'' = Some ''digitalocean''"
    using that get_inventory_aws [of env] get_inventory_do [of env]
    by (auto simp: base_inventory_def)
  ultimately show ?thesis
    by (simp add: get_aws_inventory_def get_do_inventory_def)
qed

theorem cloud_adapters_empty_witness:
  "get_inventory [''ANSIBLE_INVENTORY_SOURCE'' \<mapsto> ''aws'', ''ANSIBLE_USER'' \<mapsto> ''deploy''] =
     [(''_meta'', JDict [(''hostvars'', JDict [])])] \<and>
   get_inventory [''ANSIBLE_INVENTORY_SOURCE'' \<mapsto> ''digitalocean''] =
     [(''_meta'', JDict [(''hostvars'', JDict [])])] \<and>
   map_of (dict_update [(''_meta'', JNull), (''web'', JNull)] [(''_meta'', JDict [])]) ''_meta'' =
     Some (JDict []) \<and>
   map_of (dict_update [(''_meta'', JNull), (''web'', JNull)] [(''_meta'', JDict [])]) ''web'' =
     Some JNull"
  using cloud_adapters_empty
          [of "[]" "[]" "''k''"
              "[''ANSIBLE_INVENTORY_SOURCE'' \<mapsto> ''aws'', ''ANSIBLE_USER'' \<mapsto> ''deploy'']"]
        cloud_adapters_empty [of "[]" "[]" "''k''" "[''ANSIBLE_INVENTORY_SOURCE'' \<mapsto> ''digitalocean'']"]
        cloud_adapters_empty
          [of "[(''_meta'', JDict [])]" "[(''_meta'', JNull), (''web'', JNull)]" "''_meta''" Map.empty]
        cloud_adapters_empty
          [of "[(''_meta'', JDict [])]" "[(''_meta'', JNull), (''web'', JNull)]" "''web''" Map.empty]
  by simp

text \<open>
  C7. The document, and with it everything a run prints, is a function of the three
  variables \<^verbatim>\<open>ANSIBLE_INVENTORY_SOURCE\<close>, \<^verbatim>\<open>ANSIBLE_USER\<close> and \<^verbatim>\<open>ANSIBLE_PASSWORD\<close>: two
  environments that agree on them give equal documents and equal runs for every argument
  vector.
\<close>

theorem depends_on_three_variables:
  assumes "env1 ''ANSIBLE_INVENTORY_SOURCE'' = env2 ''ANSIBLE_INVENTORY_SOURCE''"
    and "env1 ''ANSIBLE_USER'' = env2 ''ANSIBLE_USER''"
    and "env1 ''ANSIBLE_PASSWORD'' = env2 ''ANSIBLE_PASSWORD''"
  shows "get_inventory env1 = get_inventory env2 \<and> main env1 argv = main env2 argv"
proof -
  have "static_inventory env1 = static_inventory env2"
    using assms by (simp add: static_inventory_def getenv_def getenv_default_def)
  then have "get_inventory env1 = get_inventory env2"
    using assms(1) by (simp add: get_inventory_def getenv_def)
  then show ?thesis
    by (simp add: main_def)
qed

theorem depends_on_three_variables_witness:
  "get_inventory [''ANSIBLE_PASSWORD'' \<mapsto> ''s3cret'', ''HOME'' \<mapsto> ''/root''] =
     get_inventory [''ANSIBLE_PASSWORD'' \<mapsto> ''s3cret'', ''LANG'' \<mapsto> ''C''] \<and>
   main [''ANSIBLE_PASSWORD'' \<mapsto> ''s3cret'', ''HOME'' \<mapsto> ''/root''] [''inv.py'', ''--list''] =
     main [''ANSIBLE_PASSWORD'' \<mapsto> ''s3cret'', ''LANG'' \<mapsto> ''C''] [''inv.py'', ''--list'']"
proof -
  have a: "[''ANSIBLE_PASSWORD'' \<mapsto> ''s3cret'', ''HOME'' \<mapsto> ''/root''] ''ANSIBLE_INVENTORY_SOURCE'' =
           [''ANSIBLE_PASSWORD'' \<mapsto> ''s3cret'', ''LANG'' \<mapsto> ''C''] ''ANSIBLE_INVENTORY_SOURCE''"
    and b: "[''ANSIBLE_PASSWORD'' \<mapsto> ''s3cret'', ''HOME'' \<mapsto> ''/root''] ''ANSIBLE_USER'' =
           [''ANSIBLE_PASSWORD'' \<mapsto> ''s3cret'', ''LANG'' \<mapsto> ''C''] ''ANSIBLE_USER''"
    and c: "[''ANSIBLE_PASSWORD'' \<mapsto> ''s3cret'', ''HOME'' \<mapsto> ''/root''] ''ANSIBLE_PASSWORD'' =
           [''ANSIBLE_PASSWORD'' \<mapsto> ''s3cret'', ''LANG'' \<mapsto> ''C''] ''ANSIBLE_PASSWORD''"
    by simp_all
  show ?thesis
    by (rule depends_on_three_variables [OF a b c])
qed

text \<open>
  C8. The default path cannot fail: for every environment that selects it, \<^verbatim>\<open>--list\<close> ends
  with exit code 0 having printed the document, and the document follows the output schema.
  An unset \<^verbatim>\<open>ANSIBLE_PASSWORD\<close> gives \<^verbatim>\<open>None\<close> in both password fields and an unset
  \<^verbatim>\<open>ANSIBLE_USER\<close> gives the user name \<^verbatim>\<open>ansible\<close>.
\<close>

theorem static_path_total:
  assumes "env ''ANSIBLE_INVENTORY_SOURCE'' \<noteq> Some ''aws''"
    and "env ''ANSIBLE_INVENTORY_SOURCE'' \<noteq> Some ''digitalocean''"
  shows "main env [prog, ''--list''] =
           Inr \<lparr>stdout = [JsonDumps (JDict (get_inventory env)) (Some 2)], exit_code = 0\<rparr> \<and>
         well_formed (get_inventory env) \<and>
         (env ''ANSIBLE_USER'' = None \<longrightarrow>
            lookup_path (JDict (get_inventory env)) [''servers'', ''vars'', ''ansible_user''] =
              Some (JStr ''ansible'')) \<and>
         (env ''ANSIBLE_PASSWORD'' = None \<longrightarrow>
            lookup_path (JDict (get_inventory env))
              [''servers'', ''vars'', ''ansible_become_password''] = Some JNull \<and>
            lookup_path (JDict (get_inventory env))
              [''_meta'', ''hostvars'', ''dev-server'', ''ansible_password''] = Some JNull)"
proof -
  have doc: "get_inventory env = dict_update base_inventory (static_inventory env)"
    using assms by (rule get_inventory_static)
  have "well_formed (get_inventory env)"
    by (simp add: doc well_formed_static)
  then show ?thesis
    by (simp add: main_list) (simp add: doc merged_static getenv_def getenv_default_def)
qed

theorem static_path_total_witness:
  "main Map.empty [''inv.py'', ''--list''] =
     Inr \<lparr>stdout = [JsonDumps (JDict (get_inventory Map.empty)) (Some 2)], exit_code = 0\<rparr> \<and>
   well_formed (get_inventory Map.empty) \<and>
   lookup_path (JDict (get_inventory Map.empty)) [''servers'', ''vars'', ''ansible_user''] =
     Some (JStr ''ansible'') \<and>
   lookup_path (JDict (get_inventory Map.empty))
     [''servers'', ''vars'', ''ansible_become_password''] = Some JNull \<and>
   lookup_path (JDict (get_inventory Map.empty))
     [''_meta'', ''hostvars'', ''dev-server'', ''ansible_password''] = Some JNull"
proof -
  have a: "(Map.empty :: environ) ''ANSIBLE_INVENTORY_SOURCE'' \<noteq> Some ''aws''"
    and b: "(Map.empty :: environ) ''ANSIBLE_INVENTORY_SOURCE'' \<noteq> Some ''digitalocean''"
    by simp_all
  show ?thesis
    using static_path_total [of Map.empty "''inv.py''", OF a b] by simp
qed

text \<open>
  C9. For every environment, the host names listed by the groups of the document and the
  keys of \<^verbatim>\<open>_meta.hostvars\<close> are the same: every listed host has an entry, and every entry
  names a listed host.
\<close>

theorem hosts_match_hostvars:
  "(\<forall>h \<in> set (all_hosts (get_inventory env)). h \<in> set (hostvars_hosts (get_inventory env))) \<and>
   (\<forall>h \<in> set (hostvars_hosts (get_inventory env)). h \<in> set (all_hosts (get_inventory env)))"
  using get_inventory_cases [of env]
  by (auto simp: hosts_base hosts_static)

theorem hosts_match_hostvars_witness:
  "''dev-server'' \<in> set (all_hosts (get_inventory Map.empty)) \<and>
   ''dev-server'' \<in> set (hostvars_hosts (get_inventory Map.empty))"
proof -
  have "''dev-server'' \<in> set (all_hosts (get_inventory Map.empty))"
    by (simp add: get_inventory_def getenv_def hosts_static)
  then show ?thesis
    using hosts_match_hostvars [of Map.empty] by blast
qed

text \<open>
  C10. On the default path the group variable \<^verbatim>\<open>ansible_become_password\<close> of \<^verbatim>\<open>servers\<close> and
  the host variable \<^verbatim>\<open>ansible_password\<close> of \<^verbatim>\<open>dev-server\<close> are both present and equal: each is
  the value of \<^verbatim>\<open>ANSIBLE_PASSWORD\<close>, \<^verbatim>\<open>None\<close> when it is unset.
\<close>

theorem password_fields_agree:
  assumes "env ''ANSIBLE_INVENTORY_SOURCE'' \<noteq> Some ''aws''"
    and "env ''ANSIBLE_INVENTORY_SOURCE'' \<noteq> Some ''digitalocean''"
  shows "lookup_path (JDict (get_inventory env))
           [''servers'', ''vars'', ''ansible_become_password''] =
         lookup_path (JDict (get_inventory env))
           [''_meta'', ''hostvars'', ''dev-server'', ''ansible_password''] \<and>
         lookup_path (JDict (get_inventory env))
           [''_meta'', ''hostvars'', ''dev-server'', ''ansible_password''] =
         Some (case env ''ANSIBLE_PASSWORD'' of None \<Rightarrow> JNull | Some p \<Rightarrow> JStr p)"
proof -
  have doc: "get_inventory env = dict_update base_inventory (static_inventory env)"
    using assms by (rule get_inventory_static)
  show ?thesis
    by (simp add: doc merged_static getenv_def)
qed

theorem password_fields_agree_witness:
  "lookup_path (JDict (get_inventory [''ANSIBLE_PASSWORD'' \<mapsto> ''s3cret'']))
     [''servers'', ''vars'', ''ansible_become_password''] = Some (JStr ''s3cret'') \<and>
   lookup_path (JDict (get_inventory [''ANSIBLE_PASSWORD'' \<mapsto> ''s3cret'']))
     [''_meta'', ''hostvars'', ''dev-server'', ''ansible_password''] = Some (JStr ''s3cret'')"
proof -
  have a: "[''ANSIBLE_PASSWORD'' \<mapsto> ''s3cret''] ''ANSIBLE_INVENTORY_SOURCE'' \<noteq> Some ''aws''"
    and b: "[''ANSIBLE_PASSWORD'' \<mapsto> ''s3cret''] ''ANSIBLE_INVENTORY_SOURCE'' \<noteq> Some ''digitalocean''"
    by simp_all
  show ?thesis
    using password_fields_agree [of "[''ANSIBLE_PASSWORD'' \<mapsto> ''s3cret'']", OF a b] by simp
qed

end
